theory Spec2Isabelle
  imports Main "HOL-Library.Sublist"
begin

section \<open>Python values, dictionaries and lists\<close>

text \<open>
  The metadata file is a JSON array of objects. The code reads the fields
  \<open>chapter\<close>, \<open>section\<close>, \<open>subsection\<close>, \<open>section_title\<close> and \<open>text\<close> of each object
  and treats every value as a string or \<open>None\<close> (it slices \<open>text\<close>, and compares
  \<open>subsection\<close> with \<open>None\<close>, \<open>''\<close> and \<open>'null'\<close>). A field value is therefore a JSON
  string or JSON null; a string is a list of characters with code points below 256.
\<close>

datatype pyval = PNone | PStr string

type_synonym item = "string \<rightharpoonup> pyval"

text \<open>
  Exceptions: the two that list indexing and \<open>str.split\<close> raise, and names for what
  the libraries raise in the examples of loading (a file that is not there, a file
  that does not decode, a failed assertion of the index library).
\<close>

datatype error = IndexError | ValueError | AssertionError | FileNotFoundError | DecodeError

text \<open>Sequencing of steps that may raise: the first exception ends the computation.\<close>

definition and_then :: "'e + 'a \<Rightarrow> ('a \<Rightarrow> 'e + 'b) \<Rightarrow> 'e + 'b" where
  "and_then r f = (case r of Inl e \<Rightarrow> Inl e | Inr x \<Rightarrow> f x)"

text \<open>Truth value of a Python object: \<open>None\<close> and the empty string are falsy.\<close>

fun truthy :: "pyval \<Rightarrow> bool" where
  "truthy PNone = False"
| "truthy (PStr s) = (s \<noteq> [])"

text \<open>\<open>f"{v}"\<close>: the text an f-string substitutes for a value.\<close>

fun py_format :: "pyval \<Rightarrow> string" where
  "py_format PNone = ''None''"
| "py_format (PStr s) = s"

text \<open>\<open>d.get(key)\<close> is \<open>None\<close> for a missing key; \<open>d.get(key, default)\<close> is the default.\<close>

definition dict_get :: "item \<Rightarrow> string \<Rightarrow> pyval" where
  "dict_get d key = (case d key of None \<Rightarrow> PNone | Some v \<Rightarrow> v)"

definition dict_get_default :: "item \<Rightarrow> string \<Rightarrow> pyval \<Rightarrow> pyval" where
  "dict_get_default d key dflt = (case d key of None \<Rightarrow> dflt | Some v \<Rightarrow> v)"

text \<open>
  \<open>xs[i]\<close> on a list: an index below zero counts from the end, and an index outside
  \<open>-len(xs) .. len(xs) - 1\<close> raises \<open>IndexError\<close>.
\<close>

definition py_getitem :: "'a list \<Rightarrow> int \<Rightarrow> error + 'a" where
  "py_getitem xs i =
     (if 0 \<le> i \<and> i < int (length xs) then Inr (xs ! nat i)
      else if i < 0 \<and> - int (length xs) \<le> i then Inr (xs ! nat (int (length xs) + i))
      else Inl IndexError)"

text \<open>\<open>sep.join(parts)\<close>.\<close>

fun py_join :: "string \<Rightarrow> string list \<Rightarrow> string" where
  "py_join sep [] = []"
| "py_join sep [p] = p"
| "py_join sep (p # q # ps) = p @ sep @ py_join sep (q # ps)"

section \<open>Retrieval: \<open>search_law\<close>\<close>

text \<open>
  The part of Streamlit's \<open>st.session_state\<close> that \<open>app.py\<close> uses. \<open>search_law\<close> assigns
  \<open>retrieved_items\<close> and \<open>llm_context\<close>; \<open>main\<close> assigns \<open>user_query\<close> and \<open>metadata\<close>.
\<close>

record session_state =
  user_query :: string
  retrieved_items :: "item list"
  llm_context :: string
  metadata :: "item list"

text \<open>Line 64: \<open>f"{item.get('section', '')}-{item.get('subsection', '')}"\<close>.\<close>

definition section_key :: "item \<Rightarrow> string" where
  "section_key it =
     py_format (dict_get_default it ''section'' (PStr [])) @ ''-'' @
     py_format (dict_get_default it ''subsection'' (PStr []))"

text \<open>
  Lines 61 to 69: the walk over \<open>indices[0]\<close>, with \<open>retrieved_items\<close> and
  \<open>seen_sections\<close> as the loop state. The guard of line 62 only bounds the index from
  above; \<open>metadata[idx]\<close> of line 63 is Python indexing, which may raise.
\<close>

fun dedup_loop ::
  "item list \<Rightarrow> int list \<Rightarrow> item list \<times> string set \<Rightarrow> error + item list \<times> string set" where
  "dedup_loop meta [] acc = Inr acc"
| "dedup_loop meta (idx # rest) (retrieved, seen) =
     (if idx < int (length meta) then
        (case py_getitem meta idx of
           Inl e \<Rightarrow> Inl e
         | Inr it \<Rightarrow>
             (if section_key it \<notin> seen
              then dedup_loop meta rest (retrieved @ [it], insert (section_key it) seen)
              else dedup_loop meta rest (retrieved, seen)))
      else dedup_loop meta rest (retrieved, seen))"

text \<open>
  Lines 75 to 81 (and again 294 to 300): the parts of a citation. \<open>item['chapter']\<close> is
  read only after \<open>item.get('chapter')\<close> was truthy, so the key is there and the value
  read is the one tested.
\<close>

definition subsection_shown :: "item \<Rightarrow> bool" where
  "subsection_shown it =
     (truthy (dict_get it ''subsection'') \<and>
      dict_get it ''subsection'' \<notin> set [PNone, PStr [], PStr ''null''])"

definition citation_parts :: "item \<Rightarrow> string list" where
  "citation_parts it =
     (let parts = [];
          parts = (if truthy (dict_get it ''chapter'')
                   then parts @ [''Chapter '' @ py_format (dict_get it ''chapter'')] else parts);
          parts = (if truthy (dict_get it ''section'')
                   then parts @ [''Section '' @ py_format (dict_get it ''section'')] else parts);
          parts = (if subsection_shown it
                   then parts @ [''Sub-section '' @ py_format (dict_get it ''subsection'')]
                   else parts)
      in parts)"

text \<open>
  Line 83, the citation inside \<open>search_law\<close>, which has no fallback when there are no
  parts, and line 84, one block of the context:
  \<open>f"[{citation}] {item.get('text', '')}"\<close>.
\<close>

definition context_citation :: "item \<Rightarrow> string" where
  "context_citation it = py_join '', '' (citation_parts it)"

definition chunk :: "item \<Rightarrow> string" where
  "chunk it =
     ''['' @ context_citation it @ ''] '' @ py_format (dict_get_default it ''text'' (PStr []))"

text \<open>Lines 72 to 84: the loop that appends one block per retained item.\<close>

fun format_loop :: "item list \<Rightarrow> string list \<Rightarrow> string list" where
  "format_loop [] chunks = chunks"
| "format_loop (it # its) chunks = format_loop its (chunks @ [chunk it])"

text \<open>
  \<open>search_law\<close>. The encoder and the index are the caller's objects; \<open>sbert\<close> stands for
  \<open>sbert.encode\<close> on the one query and \<open>index\<close> for \<open>index.search\<close>, giving the rows
  \<open>distances[0]\<close> and \<open>indices[0]\<close>. The session state is passed in and returned; an
  exception leaves before lines 87 and 88 are reached.
\<close>

definition search_law ::
  "string \<Rightarrow> (string \<Rightarrow> 'v) \<Rightarrow> ('v \<Rightarrow> nat \<Rightarrow> 'd list \<times> int list) \<Rightarrow> item list \<Rightarrow> nat \<Rightarrow>
   session_state \<Rightarrow> error + string \<times> session_state" where
  "search_law query sbert index meta k st =
     (let q_emb = sbert query;
          indices = snd (index q_emb k)
      in case dedup_loop meta indices ([], {}) of
           Inl e \<Rightarrow> Inl e
         | Inr (retrieved, seen) \<Rightarrow>
             (let chunks = format_loop retrieved [];
                  st1 = st\<lparr>retrieved_items := retrieved\<rparr>;
                  st2 = st1\<lparr>llm_context := py_join [CHR 0x0A, CHR 0x0A] chunks\<rparr>
              in Inr (py_join [CHR 0x0A, CHR 0x0A] chunks, st2)))"

text \<open>
  What a caller has after a call: the retained hits (read back from the session state,
  as \<open>main\<close> does) and the returned context string, or the exception.
\<close>

definition retrieval_result :: "error + string \<times> session_state \<Rightarrow> error + item list \<times> string" where
  "retrieval_result r =
     (case r of Inl e \<Rightarrow> Inl e | Inr (ctx, st) \<Rightarrow> Inr (retrieved_items st, ctx))"

section \<open>Citations for display: \<open>format_citation\<close>\<close>

definition format_citation :: "item \<Rightarrow> string" where
  "format_citation it =
     (if citation_parts it \<noteq> [] then py_join '', '' (citation_parts it)
      else ''Citation not available'')"

section \<open>Strings: \<open>in\<close>, \<open>str.find\<close>, \<open>str.split\<close>, \<open>str.strip\<close>\<close>

text \<open>\<open>s.find(sep)\<close>: the lowest index at which \<open>sep\<close> occurs in \<open>s\<close>, if any.\<close>

fun find_sub :: "string \<Rightarrow> string \<Rightarrow> nat option" where
  "find_sub sep [] = (if sep = [] then Some 0 else None)"
| "find_sub sep (c # cs) =
     (if prefix sep (c # cs) then Some 0 else map_option Suc (find_sub sep cs))"

text \<open>\<open>sep in s\<close>.\<close>

definition py_in :: "string \<Rightarrow> string \<Rightarrow> bool" where
  "py_in sep s = (find_sub sep s \<noteq> None)"

text \<open>
  \<open>s.split(sep)\<close> for a separator that is not empty: cut at the first occurrence, then
  split what follows it. An empty separator raises \<open>ValueError\<close>.
\<close>

function split_ne :: "string \<Rightarrow> string \<Rightarrow> string list" where
  "split_ne sep s =
     (case find_sub sep s of
        None \<Rightarrow> [s]
      | Some i \<Rightarrow> if sep = [] then [s] else take i s # split_ne sep (drop (i + length sep) s))"
  by pat_completeness auto
termination
proof (relation "measure (\<lambda>(sep, s). length s)")
  show "wf (measure (\<lambda>(sep, s). length s))" by simp
next
  fix sep s :: string and i
  assume found: "find_sub sep s = Some i" and ne: "sep \<noteq> []"
  have bound: "find_sub sep t = Some j \<Longrightarrow> j + length sep \<le> length t" for t j
    by (induction t arbitrary: j) (auto split: if_splits dest: prefix_length_le)
  from bound[OF found] ne have "i + length sep \<le> length s" "0 < i + length sep"
    by simp_all
  then have "length s - (i + length sep) < length s"
    by arith
  then show "((sep, drop (i + length sep) s), (sep, s)) \<in> measure (\<lambda>(sep, s). length s)"
    by simp
qed

declare split_ne.simps [simp del]

definition py_split :: "string \<Rightarrow> string \<Rightarrow> error + string list" where
  "py_split sep s = (if sep = [] then Inl ValueError else Inr (split_ne sep s))"

text \<open>
  \<open>str.isspace\<close> on the code points below 256, and \<open>s.strip()\<close>, which removes leading
  and trailing whitespace.
\<close>

definition is_space :: "char \<Rightarrow> bool" where
  "is_space c \<longleftrightarrow> c \<in> set [CHR 0x09, CHR 0x0A, CHR 0x0B, CHR 0x0C, CHR 0x0D,
     CHR 0x1C, CHR 0x1D, CHR 0x1E, CHR 0x1F, CHR 0x20, CHR 0x85, CHR 0xA0]"

definition strip :: "string \<Rightarrow> string" where
  "strip s = rev (dropWhile is_space (rev (dropWhile is_space s)))"

section \<open>Parsing the model's response (lines 398 to 408 of \<open>main\<close>)\<close>

text \<open>
  Either both markers were found and the two texts were cut out, or the response is
  shown as it is.
\<close>

datatype parsed = Parsed (answer_text: string) (source_text: string) | Unparsed string

definition parse_answer :: "string \<Rightarrow> error + parsed" where
  "parse_answer answer =
     (if py_in ''Answer:'' answer \<and> py_in ''Source:'' answer then
        and_then (py_split ''Answer:'' answer) (\<lambda>pieces.
        and_then (py_getitem pieces 1) (\<lambda>after_answer.
        and_then (py_split ''Source:'' after_answer) (\<lambda>parts.
        and_then (py_getitem parts 0) (\<lambda>body.
        and_then (if py_in ''Source:'' answer
                  then and_then (py_split ''Source:'' answer) (\<lambda>halves.
                       and_then (py_getitem halves 1) (\<lambda>rest. Inr (strip rest)))
                  else Inr []) (\<lambda>src.
        Inr (Parsed (strip body) src))))))
      else Inr (Unparsed answer))"

section \<open>Loading the corpus: \<open>load_embeddings\<close> and the start of \<open>main\<close>\<close>

text \<open>
  What \<open>json.load\<close> can give: any JSON value, not only a list of objects. (Integers
  stand for the numbers.)
\<close>

datatype json = JNull | JBool bool | JNum int | JStr string | JArr "json list"
  | JObj "(string \<times> json) list"

text \<open>What the page shows through \<open>st.error\<close>; \<open>'e\<close> is the type of exceptions.\<close>

datatype 'e message = Error_loading_data 'e | Failed_to_load_legal_database

text \<open>
  \<open>load_embeddings\<close>. NumPy and FAISS are not part of the program, so every call into
  them is an argument that says what the call does, raise or return:
  \<open>np_load\<close> for \<open>np.load("final_legal_embeddings.npy")\<close>, \<open>json_load\<close> for opening and
  decoding the metadata file, \<open>shape_dim\<close> for \<open>emb.shape[1]\<close>, \<open>new_index\<close> for
  \<open>faiss.IndexFlatL2(dim)\<close> and \<open>index_add\<close> for \<open>index.add(emb)\<close>, which gives the index
  with the vectors added. The function itself inspects neither the array nor the
  metadata. Any exception inside the \<open>try\<close> is reported and the three results are
  \<open>None\<close>.
\<close>

definition load_embeddings ::
  "'e + 'arr \<Rightarrow> 'e + json \<Rightarrow> ('arr \<Rightarrow> 'e + 'dim) \<Rightarrow> ('dim \<Rightarrow> 'e + 'ix) \<Rightarrow>
   ('ix \<Rightarrow> 'arr \<Rightarrow> 'e + 'ix) \<Rightarrow> 'e message list \<times> ('arr option \<times> json \<times> 'ix option)" where
  "load_embeddings np_load json_load shape_dim new_index index_add =
     (case and_then np_load (\<lambda>emb.
           and_then json_load (\<lambda>meta.
           and_then (shape_dim emb) (\<lambda>dim.
           and_then (new_index dim) (\<lambda>index.
           and_then (index_add index emb) (\<lambda>index.
           Inr (emb, meta, index)))))) of
        Inr (emb, meta, index) \<Rightarrow> ([], (Some emb, meta, Some index))
      | Inl e \<Rightarrow> ([Error_loading_data e], (None, JNull, None)))"

text \<open>
  Lines 327 to 334 of \<open>main\<close>: when \<open>emb\<close> or \<open>index\<close> is \<open>None\<close> a second error is shown
  and \<open>st.stop()\<close> ends the run (\<open>None\<close> below); otherwise the run goes on with what
  was loaded. The metadata is not looked at.
\<close>

definition main_load ::
  "'e + 'arr \<Rightarrow> 'e + json \<Rightarrow> ('arr \<Rightarrow> 'e + 'dim) \<Rightarrow> ('dim \<Rightarrow> 'e + 'ix) \<Rightarrow>
   ('ix \<Rightarrow> 'arr \<Rightarrow> 'e + 'ix) \<Rightarrow> 'e message list \<times> ('arr \<times> json \<times> 'ix) option" where
  "main_load np_load json_load shape_dim new_index index_add =
     (case load_embeddings np_load json_load shape_dim new_index index_add of
        (shown, (emb, meta, index)) \<Rightarrow>
          (case (emb, index) of
             (Some a, Some ix) \<Rightarrow> (shown, Some (a, meta, ix))
           | _ \<Rightarrow> (shown @ [Failed_to_load_legal_database], None)))"

section \<open>Notions used to state the properties\<close>

text \<open>
  The record that index \<open>i\<close> denotes in Python when the lookup does not raise, and the
  records of the neighbours that pass the guard of line 62, in search order.
\<close>

definition resolve :: "'a list \<Rightarrow> int \<Rightarrow> 'a" where
  "resolve xs i = xs ! nat (if i < 0 then int (length xs) + i else i)"

definition neighbours :: "item list \<Rightarrow> int list \<Rightarrow> item list" where
  "neighbours meta idxs = map (resolve meta) (filter (\<lambda>i. i < int (length meta)) idxs)"

text \<open>Keeping, of a list of records, the first one of every key not yet seen.\<close>

fun first_wins :: "string set \<Rightarrow> item list \<Rightarrow> item list" where
  "first_wins seen [] = []"
| "first_wins seen (x # xs) =
     (if section_key x \<in> seen then first_wins seen xs
      else x # first_wins (insert (section_key x) seen) xs)"

text \<open>
  The dedup key as the specification words it: the pair of section and subsection,
  where a subsection that is null, the empty string or the string \<open>"null"\<close> (or is not
  there) counts as absent.
\<close>

definition spec_normalized_key :: "item \<Rightarrow> pyval option \<times> string option" where
  "spec_normalized_key it =
     (it ''section'',
      case it ''subsection'' of
        None \<Rightarrow> None
      | Some PNone \<Rightarrow> None
      | Some (PStr s) \<Rightarrow> if s = [] \<or> s = ''null'' then None else Some s)"

text \<open>The text of \<open>s\<close> before the first occurrence of \<open>sep\<close>, all of \<open>s\<close> when there is none.\<close>

definition before :: "string \<Rightarrow> string \<Rightarrow> string" where
  "before sep s = (case find_sub sep s of None \<Rightarrow> s | Some i \<Rightarrow> take i s)"

text \<open>
  The two texts as the specification words them: what lies between the first
  \<open>Answer:\<close> and the first \<open>Source:\<close>, and everything after the first \<open>Source:\<close>, both
  trimmed.
\<close>

definition spec_answer_text :: "string \<Rightarrow> string" where
  "spec_answer_text s =
     (case (find_sub ''Answer:'' s, find_sub ''Source:'' s) of
        (Some i, Some j) \<Rightarrow> strip (take (j - (i + 7)) (drop (i + 7) s))
      | _ \<Rightarrow> [])"

definition spec_source_text :: "string \<Rightarrow> string" where
  "spec_source_text s =
     (case find_sub ''Source:'' s of Some j \<Rightarrow> strip (drop (j + 7) s) | None \<Rightarrow> [])"

text \<open>
  A citation as the specification words it: a chapter or section counts as absent when
  the field is missing, null or empty, a subsection also when it is the string
  \<open>"null"\<close>; the parts of the fields that are present are listed in the order chapter,
  section, subsection.
\<close>

definition field_absent :: "pyval option \<Rightarrow> bool" where
  "field_absent v = (v = None \<or> v = Some PNone \<or> v = Some (PStr []))"

definition subsection_absent :: "pyval option \<Rightarrow> bool" where
  "subsection_absent v = (field_absent v \<or> v = Some (PStr ''null''))"

definition field_text :: "pyval option \<Rightarrow> string" where
  "field_text v = (case v of Some (PStr s) \<Rightarrow> s | _ \<Rightarrow> [])"

definition spec_citation_parts :: "item \<Rightarrow> string list" where
  "spec_citation_parts it =
     (if field_absent (it ''chapter'') then [] else [''Chapter '' @ field_text (it ''chapter'')]) @
     (if field_absent (it ''section'') then [] else [''Section '' @ field_text (it ''section'')]) @
     (if subsection_absent (it ''subsection'') then []
      else [''Sub-section '' @ field_text (it ''subsection'')])"

section \<open>Auxiliary facts about the retrieval loop\<close>

lemma py_getitem_resolve: "py_getitem xs i = Inr x \<Longrightarrow> resolve xs i = x"
  by (auto simp: py_getitem_def resolve_def split: if_splits)

lemma dedup_loop_first_wins:
  "dedup_loop meta idxs (acc, seen) = Inr (res, seen') \<Longrightarrow>
   res = acc @ first_wins seen (neighbours meta idxs) \<and>
   seen' = seen \<union> section_key ` set (neighbours meta idxs)"
proof (induction idxs arbitrary: acc seen)
  case Nil
  then show ?case by (simp add: neighbours_def)
next
  case (Cons idx rest)
  show ?case
  proof (cases "idx < int (length meta)")
    case False
    with Cons.prems have "dedup_loop meta rest (acc, seen) = Inr (res, seen')" by simp
    from Cons.IH[OF this] False show ?thesis by (simp add: neighbours_def)
  next
    case True
    with Cons.prems obtain it where it: "py_getitem meta idx = Inr it"
      by (cases "py_getitem meta idx") auto
    have nb: "neighbours meta (idx # rest) = it # neighbours meta rest"
      using True py_getitem_resolve[OF it] by (simp add: neighbours_def)
    show ?thesis
    proof (cases "section_key it \<in> seen")
      case True
      with Cons.prems \<open>idx < int (length meta)\<close> it
      have "dedup_loop meta rest (acc, seen) = Inr (res, seen')" by simp
      from Cons.IH[OF this] True nb show ?thesis by auto
    next
      case False
      with Cons.prems \<open>idx < int (length meta)\<close> it
      have "dedup_loop meta rest (acc @ [it], insert (section_key it) seen) = Inr (res, seen')"
        by simp
      from Cons.IH[OF this] False nb show ?thesis by auto
    qed
  qed
qed

lemma first_wins_keys:
  "section_key ` set (first_wins seen xs) = section_key ` set xs - seen"
  by (induction xs arbitrary: seen) auto

lemma first_wins_distinct: "distinct (map section_key (first_wins seen xs))"
proof (induction xs arbitrary: seen)
  case Nil
  then show ?case by simp
next
  case (Cons x xs)
  have "section_key x \<notin> section_key ` set (first_wins (insert (section_key x) seen) xs)"
    by (simp add: first_wins_keys)
  with Cons show ?case by simp
qed

lemma first_wins_find:
  "r \<in> set (first_wins seen xs) \<Longrightarrow> find (\<lambda>x. section_key x = section_key r) xs = Some r"
proof (induction xs arbitrary: seen)
  case Nil
  then show ?case by simp
next
  case (Cons x xs)
  show ?case
  proof (cases "section_key x \<in> seen")
    case True
    with Cons.prems have r: "r \<in> set (first_wins seen xs)" by simp
    then have "section_key r \<in> section_key ` set xs - seen"
      using first_wins_keys[of seen xs] by blast
    with True have "section_key x \<noteq> section_key r" by auto
    with Cons.IH[OF r] show ?thesis by simp
  next
    case False
    with Cons.prems consider "r = x" | "r \<in> set (first_wins (insert (section_key x) seen) xs)"
      by auto
    then show ?thesis
    proof cases
      case 1
      then show ?thesis by simp
    next
      case 2
      then have "section_key r \<in> section_key ` set xs - insert (section_key x) seen"
        using first_wins_keys[of "insert (section_key x) seen" xs] by blast
      then have "section_key x \<noteq> section_key r" by auto
      with Cons.IH[OF 2] show ?thesis by simp
    qed
  qed
qed

lemma first_wins_map_subseq:
  "\<exists>js. subseq js is \<and> first_wins seen (map f is) = map f js"
proof (induction "is" arbitrary: seen)
  case Nil
  then show ?case by simp
next
  case (Cons i "is")
  show ?case
  proof (cases "section_key (f i) \<in> seen")
    case True
    from Cons[of seen] obtain js where "subseq js is" "first_wins seen (map f is) = map f js"
      by blast
    with True show ?thesis by (intro exI[of _ js]) (simp add: list_emb_Cons)
  next
    case False
    from Cons[of "insert (section_key (f i)) seen"] obtain js
      where "subseq js is" "first_wins (insert (section_key (f i)) seen) (map f is) = map f js"
      by blast
    with False show ?thesis by (intro exI[of _ "i # js"]) simp
  qed
qed

lemma search_law_hits:
  "retrieval_result (search_law q sbert index meta k st) = Inr (hits, ctx) \<Longrightarrow>
   hits = first_wins {} (neighbours meta (snd (index (sbert q) k)))"
  by (auto simp: retrieval_result_def search_law_def Let_def
      split: sum.splits prod.splits dest: dedup_loop_first_wins)

lemma format_loop_map: "format_loop its chunks = chunks @ map chunk its"
  by (induction its arbitrary: chunks) auto

lemma search_law_context:
  "retrieval_result (search_law q sbert index meta k st) = Inr (hits, ctx) \<Longrightarrow>
   ctx = py_join [CHR 0x0A, CHR 0x0A] (map chunk hits)"
  by (auto simp: retrieval_result_def search_law_def Let_def format_loop_map
      split: sum.splits prod.splits)

section \<open>Deduplication of the retained hits\<close>

text \<open>
  Against C1 as worded: the dedup key of line 64 is built from the raw field values, so
  a subsection that is null (rendered \<open>None\<close>) and one that is the empty string give
  the keys \<open>41-None\<close> and \<open>41-\<close>. Both records are retained although their normalized
  keys agree.
\<close>

theorem dedup_normalized_key_counterexample:
  "retrieval_result
     (search_law ''murder'' (\<lambda>q. ()) (\<lambda>v k. ([] :: unit list, [0, 1]))
        [[''section'' \<mapsto> PStr ''41'', ''subsection'' \<mapsto> PNone, ''text'' \<mapsto> PStr ''A''],
         [''section'' \<mapsto> PStr ''41'', ''subsection'' \<mapsto> PStr [], ''text'' \<mapsto> PStr ''B'']]
        6
        \<lparr>user_query = [], retrieved_items = [], llm_context = [], metadata = []\<rparr>)
   = Inr ([[''section'' \<mapsto> PStr ''41'', ''subsection'' \<mapsto> PNone, ''text'' \<mapsto> PStr ''A''],
           [''section'' \<mapsto> PStr ''41'', ''subsection'' \<mapsto> PStr [], ''text'' \<mapsto> PStr ''B'']],
          ''[Section 41] A'' @ [CHR 0x0A, CHR 0x0A] @ ''[Section 41] B'')
   \<and> spec_normalized_key
        [''section'' \<mapsto> PStr ''41'', ''subsection'' \<mapsto> PNone, ''text'' \<mapsto> PStr ''A'']
     = spec_normalized_key
        [''section'' \<mapsto> PStr ''41'', ''subsection'' \<mapsto> PStr [], ''text'' \<mapsto> PStr ''B'']"
  by (simp add: retrieval_result_def search_law_def py_getitem_def section_key_def
      dict_get_default_def dict_get_def chunk_def context_citation_def citation_parts_def subsection_shown_def
      spec_normalized_key_def)

text \<open>
  C1, amended: no two retained hits have the same key string of line 64, which is the
  section and the subsection as the f-string renders them, joined by \<open>-\<close>, with no
  normalization; every retained hit is the first of the neighbours, in search order,
  that has its key string, and every key string among the neighbours is retained.
\<close>

theorem dedup_section_key:
  assumes "retrieval_result (search_law q sbert index meta k st) = Inr (hits, ctx)"
  shows "distinct (map section_key hits) \<and>
         (\<forall>r \<in> set hits.
            find (\<lambda>x. section_key x = section_key r)
              (neighbours meta (snd (index (sbert q) k))) = Some r) \<and>
         section_key ` set hits = section_key ` set (neighbours meta (snd (index (sbert q) k)))"
proof -
  from search_law_hits[OF assms]
  have hits: "hits = first_wins {} (neighbours meta (snd (index (sbert q) k)))" .
  show ?thesis
    unfolding hits
    using first_wins_distinct first_wins_find first_wins_keys[of "{}"] by auto
qed

text \<open>
  Three neighbours, the first two with the same key string \<open>41-\<close>: the first and the
  third are retained.
\<close>

theorem dedup_section_key_witness:
  "retrieval_result
     (search_law ''murder'' (\<lambda>q. ()) (\<lambda>v k. ([] :: unit list, [0, 1, 2]))
        [[''section'' \<mapsto> PStr ''41'', ''text'' \<mapsto> PStr ''A''],
         [''section'' \<mapsto> PStr ''41'', ''text'' \<mapsto> PStr ''B''],
         [''section'' \<mapsto> PStr ''99'', ''text'' \<mapsto> PStr ''C'']]
        6
        \<lparr>user_query = [], retrieved_items = [], llm_context = [], metadata = []\<rparr>)
   = Inr ([[''section'' \<mapsto> PStr ''41'', ''text'' \<mapsto> PStr ''A''],
           [''section'' \<mapsto> PStr ''99'', ''text'' \<mapsto> PStr ''C'']],
          ''[Section 41] A'' @ [CHR 0x0A, CHR 0x0A] @ ''[Section 99] C'')
   \<and> distinct (map section_key
         [[''section'' \<mapsto> PStr ''41'', ''text'' \<mapsto> PStr ''A''],
          [''section'' \<mapsto> PStr ''99'', ''text'' \<mapsto> PStr ''C'']])"
proof -
  have run: "retrieval_result
     (search_law ''murder'' (\<lambda>q. ()) (\<lambda>v k. ([] :: unit list, [0, 1, 2]))
        [[''section'' \<mapsto> PStr ''41'', ''text'' \<mapsto> PStr ''A''],
         [''section'' \<mapsto> PStr ''41'', ''text'' \<mapsto> PStr ''B''],
         [''section'' \<mapsto> PStr ''99'', ''text'' \<mapsto> PStr ''C'']]
        6
        \<lparr>user_query = [], retrieved_items = [], llm_context = [], metadata = []\<rparr>)
   = Inr ([[''section'' \<mapsto> PStr ''41'', ''text'' \<mapsto> PStr ''A''],
           [''section'' \<mapsto> PStr ''99'', ''text'' \<mapsto> PStr ''C'']],
          ''[Section 41] A'' @ [CHR 0x0A, CHR 0x0A] @ ''[Section 99] C'')"
    by (simp add: retrieval_result_def search_law_def py_getitem_def section_key_def
        dict_get_default_def dict_get_def chunk_def context_citation_def citation_parts_def subsection_shown_def)
  from dedup_section_key[OF run] run show ?thesis by blast
qed

section \<open>Order and number of the retained hits\<close>

text \<open>
  C6: when \<open>search_law\<close> returns, the retained hits are the records of a subsequence
  of the neighbour indices in the order the index search gave them (ascending distance),
  and when the search gives at most \<open>k\<close> neighbours there are at most \<open>k\<close> hits.
\<close>

theorem retained_order_and_count:
  assumes "retrieval_result (search_law q sbert index meta k st) = Inr (hits, ctx)"
    and "length (snd (index (sbert q) k)) \<le> k"
  shows "(\<exists>js. subseq js (snd (index (sbert q) k)) \<and> hits = map (resolve meta) js) \<and>
         length hits \<le> k"
proof -
  let ?idxs = "snd (index (sbert q) k)"
  let ?kept = "filter (\<lambda>i. i < int (length meta)) ?idxs"
  from search_law_hits[OF assms(1)]
  have hits: "hits = first_wins {} (map (resolve meta) ?kept)"
    by (simp add: neighbours_def)
  from first_wins_map_subseq[of ?kept "{}" "resolve meta"] obtain js
    where js: "subseq js ?kept" "first_wins {} (map (resolve meta) ?kept) = map (resolve meta) js"
    by blast
  have "subseq ?kept ?idxs" by simp
  with js(1) have sub: "subseq js ?idxs" by (rule subseq_order.trans)
  then have "length js \<le> length ?idxs" by (rule list_emb_length)
  with assms(2) hits js(2) have "length hits \<le> k" by simp
  with sub hits js(2) show ?thesis by auto
qed

text \<open>
  Six neighbours over three records, the last of them the padding index \<open>-1\<close>: two hits
  are retained, in search order.
\<close>

theorem retained_order_and_count_witness:
  "(\<exists>js. subseq js [2, 0, 2, 1, 7, - 1] \<and>
      [[''section'' \<mapsto> PStr ''99''], [''section'' \<mapsto> PStr ''41'']]
      = map (resolve [[''section'' \<mapsto> PStr ''41''], [''section'' \<mapsto> PStr ''41''],
                      [''section'' \<mapsto> PStr ''99'']]) js) \<and>
   length [[''section'' \<mapsto> PStr ''99''], [''section'' \<mapsto> PStr ''41'']] \<le> (6 :: nat)"
proof -
  have run: "retrieval_result
     (search_law ''theft'' (\<lambda>q. ()) (\<lambda>v k. ([] :: unit list, [2, 0, 2, 1, 7, - 1]))
        [[''section'' \<mapsto> PStr ''41''], [''section'' \<mapsto> PStr ''41''],
         [''section'' \<mapsto> PStr ''99'']]
        6
        \<lparr>user_query = [], retrieved_items = [], llm_context = [], metadata = []\<rparr>)
   = Inr ([[''section'' \<mapsto> PStr ''99''], [''section'' \<mapsto> PStr ''41'']],
          ''[Section 99] '' @ [CHR 0x0A, CHR 0x0A] @ ''[Section 41] '')"
    by (simp add: retrieval_result_def search_law_def py_getitem_def section_key_def
        dict_get_default_def dict_get_def chunk_def context_citation_def citation_parts_def
        subsection_shown_def)
  have len: "length (snd ((\<lambda>v k. ([] :: unit list, [2, 0, 2, 1, 7, - 1 :: int])) ((\<lambda>q. ()) ''theft'') (6 :: nat))) \<le> 6"
    by simp
  from retained_order_and_count[OF run len] show ?thesis by simp
qed

section \<open>Assembly of the context\<close>

text \<open>
  C5: the context is the blocks \<open>[citation] text\<close> of the retained hits, in retained
  order, joined by a blank line; for two retained hits with citations \<open>c1\<close>, \<open>c2\<close> and
  texts \<open>ta\<close>, \<open>tb\<close> it is \<open>[c1] ta\<close>, two newlines, \<open>[c2] tb\<close>.
\<close>

theorem context_assembly:
  assumes "retrieval_result (search_law q sbert index meta k st) = Inr (hits, ctx)"
  shows "ctx = py_join [CHR 0x0A, CHR 0x0A]
           (map (\<lambda>it. ''['' @ context_citation it @ ''] '' @
                       py_format (dict_get_default it ''text'' (PStr []))) hits) \<and>
         (hits = [a, b] \<and> context_citation a = c1 \<and> context_citation b = c2 \<and>
          py_format (dict_get_default a ''text'' (PStr [])) = ta \<and>
          py_format (dict_get_default b ''text'' (PStr [])) = tb \<longrightarrow>
          ctx = ''['' @ c1 @ ''] '' @ ta @ [CHR 0x0A, CHR 0x0A] @ ''['' @ c2 @ ''] '' @ tb)"
proof -
  have blocks: "chunk = (\<lambda>it. ''['' @ context_citation it @ ''] '' @
                       py_format (dict_get_default it ''text'' (PStr [])))"
    by (rule ext) (simp add: chunk_def)
  from search_law_context[OF assms]
  have "ctx = py_join [CHR 0x0A, CHR 0x0A] (map chunk hits)" .
  then show ?thesis unfolding blocks by auto
qed

theorem context_assembly_witness:
  "context_citation [''section'' \<mapsto> PStr ''1'', ''text'' \<mapsto> PStr ''A''] = ''Section 1'' \<and>
   context_citation [''section'' \<mapsto> PStr ''2'', ''text'' \<mapsto> PStr ''B''] = ''Section 2'' \<and>
   retrieval_result
     (search_law ''theft'' (\<lambda>q. ()) (\<lambda>v k. ([] :: unit list, [0, 1]))
        [[''section'' \<mapsto> PStr ''1'', ''text'' \<mapsto> PStr ''A''],
         [''section'' \<mapsto> PStr ''2'', ''text'' \<mapsto> PStr ''B'']]
        6
        \<lparr>user_query = [], retrieved_items = [], llm_context = [], metadata = []\<rparr>)
   = Inr ([[''section'' \<mapsto> PStr ''1'', ''text'' \<mapsto> PStr ''A''],
           [''section'' \<mapsto> PStr ''2'', ''text'' \<mapsto> PStr ''B'']],
          ''[Section 1] A'' @ [CHR 0x0A, CHR 0x0A] @ ''[Section 2] B'')"
proof -
  let ?a = "[''section'' \<mapsto> PStr ''1'', ''text'' \<mapsto> PStr ''A'']"
  let ?b = "[''section'' \<mapsto> PStr ''2'', ''text'' \<mapsto> PStr ''B'']"
  have hits: "\<exists>ctx. retrieval_result
     (search_law ''theft'' (\<lambda>q. ()) (\<lambda>v k. ([] :: unit list, [0, 1])) [?a, ?b] 6
        \<lparr>user_query = [], retrieved_items = [], llm_context = [], metadata = []\<rparr>)
   = Inr ([?a, ?b], ctx)"
    by (simp add: retrieval_result_def search_law_def py_getitem_def section_key_def
        dict_get_default_def)
  then obtain ctx where run: "retrieval_result
     (search_law ''theft'' (\<lambda>q. ()) (\<lambda>v k. ([] :: unit list, [0, 1])) [?a, ?b] 6
        \<lparr>user_query = [], retrieved_items = [], llm_context = [], metadata = []\<rparr>)
   = Inr ([?a, ?b], ctx)" by blast
  have ca: "context_citation ?a = ''Section 1''" and cb: "context_citation ?b = ''Section 2''"
    by (simp_all add: context_citation_def citation_parts_def subsection_shown_def dict_get_def)
  have ta: "py_format (dict_get_default ?a ''text'' (PStr [])) = ''A''"
    and tb: "py_format (dict_get_default ?b ''text'' (PStr [])) = ''B''"
    by (simp_all add: dict_get_default_def)
  from context_assembly[OF run, of ?a ?b "''Section 1''" "''Section 2''" "''A''" "''B''"] ca cb ta tb
  have "ctx = ''[Section 1] A'' @ [CHR 0x0A, CHR 0x0A] @ ''[Section 2] B''" by simp
  with run ca cb show ?thesis by simp
qed

section \<open>Effects of \<open>search_law\<close> on the session state\<close>

text \<open>
  Against C8 as worded: lines 87 and 88 assign \<open>st.session_state.retrieved_items\<close> and
  \<open>st.session_state.llm_context\<close>. A call on a state whose \<open>retrieved_items\<close> is empty
  leaves a state in which it holds the retained hit.
\<close>

theorem search_law_mutates_session_state:
  "search_law ''theft'' (\<lambda>q. ()) (\<lambda>v k. ([] :: unit list, [0]))
     [[''section'' \<mapsto> PStr ''99'', ''text'' \<mapsto> PStr ''C'']] 6
     \<lparr>user_query = ''theft'', retrieved_items = [], llm_context = [], metadata = []\<rparr>
   = Inr (''[Section 99] C'',
          \<lparr>user_query = ''theft'',
           retrieved_items = [[''section'' \<mapsto> PStr ''99'', ''text'' \<mapsto> PStr ''C'']],
           llm_context = ''[Section 99] C'', metadata = []\<rparr>)
   \<and> \<lparr>user_query = ''theft'',
      retrieved_items = [[''section'' \<mapsto> PStr ''99'', ''text'' \<mapsto> PStr ''C'']],
      llm_context = ''[Section 99] C'', metadata = []\<rparr>
     \<noteq> \<lparr>user_query = ''theft'', retrieved_items = [], llm_context = [], metadata = []\<rparr>"
  by (simp add: search_law_def py_getitem_def section_key_def
      dict_get_default_def dict_get_def chunk_def context_citation_def citation_parts_def
      subsection_shown_def)

text \<open>
  C8, amended: \<open>search_law\<close> writes two fields of the session state,
  \<open>retrieved_items\<close> (the retained hits) and \<open>llm_context\<close> (the returned context), and
  changes nothing else of it: \<open>user_query\<close>, \<open>metadata\<close> and every other entry stay as
  they were.
\<close>

theorem search_law_frame:
  assumes "search_law q sbert index meta k st = Inr (ctx, st')"
  shows "st' = st\<lparr>retrieved_items := retrieved_items st', llm_context := ctx\<rparr> \<and>
         user_query st' = user_query st \<and> metadata st' = metadata st \<and>
         session_state.more st' = session_state.more st \<and>
         llm_context st' = ctx"
  using assms
  by (auto simp: search_law_def Let_def split: sum.splits prod.splits)

theorem search_law_frame_witness:
  "search_law ''theft'' (\<lambda>q. ()) (\<lambda>v k. ([] :: unit list, [0]))
     [[''section'' \<mapsto> PStr ''99'', ''text'' \<mapsto> PStr ''C'']] 6
     \<lparr>user_query = ''theft'', retrieved_items = [], llm_context = [], metadata = []\<rparr>
   = Inr (''[Section 99] C'',
          \<lparr>user_query = ''theft'',
           retrieved_items = [[''section'' \<mapsto> PStr ''99'', ''text'' \<mapsto> PStr ''C'']],
           llm_context = ''[Section 99] C'', metadata = []\<rparr>)
   \<and> user_query \<lparr>user_query = ''theft'',
           retrieved_items = [[''section'' \<mapsto> PStr ''99'', ''text'' \<mapsto> PStr ''C'']],
           llm_context = ''[Section 99] C'', metadata = []\<rparr> = ''theft''"
proof -
  have run: "search_law ''theft'' (\<lambda>q. ()) (\<lambda>v k. ([] :: unit list, [0]))
     [[''section'' \<mapsto> PStr ''99'', ''text'' \<mapsto> PStr ''C'']] 6
     \<lparr>user_query = ''theft'', retrieved_items = [], llm_context = [], metadata = []\<rparr>
   = Inr (''[Section 99] C'',
          \<lparr>user_query = ''theft'',
           retrieved_items = [[''section'' \<mapsto> PStr ''99'', ''text'' \<mapsto> PStr ''C'']],
           llm_context = ''[Section 99] C'', metadata = []\<rparr>)"
    by (simp add: search_law_def py_getitem_def section_key_def
        dict_get_default_def dict_get_def chunk_def context_citation_def citation_parts_def
        subsection_shown_def)
  from search_law_frame[OF run] run show ?thesis by simp
qed

section \<open>Determinism of \<open>search_law\<close>\<close>

text \<open>
  C9: with the same question, encoder, index, corpus and \<open>k\<close>, the retrieval result
  (retained hits in order, and context string) is the same whatever the session state
  was before the call, and a second call from the state the first one left returns the
  same context and leaves the same state.
\<close>

theorem search_law_deterministic:
  "retrieval_result (search_law q sbert index meta k st1)
     = retrieval_result (search_law q sbert index meta k st2) \<and>
   (search_law q sbert index meta k st1 = Inr (ctx, st1') \<longrightarrow>
    search_law q sbert index meta k st1' = Inr (ctx, st1'))"
  by (auto simp: retrieval_result_def search_law_def Let_def split: sum.splits prod.splits)

theorem search_law_deterministic_witness:
  "search_law ''theft'' (\<lambda>q. ()) (\<lambda>v k. ([] :: unit list, [0]))
     [[''section'' \<mapsto> PStr ''99'', ''text'' \<mapsto> PStr ''C'']] 6
     \<lparr>user_query = ''theft'', retrieved_items = [], llm_context = [], metadata = []\<rparr>
   = Inr (''[Section 99] C'',
          \<lparr>user_query = ''theft'',
           retrieved_items = [[''section'' \<mapsto> PStr ''99'', ''text'' \<mapsto> PStr ''C'']],
           llm_context = ''[Section 99] C'', metadata = []\<rparr>)
   \<and> search_law ''theft'' (\<lambda>q. ()) (\<lambda>v k. ([] :: unit list, [0]))
     [[''section'' \<mapsto> PStr ''99'', ''text'' \<mapsto> PStr ''C'']] 6
     \<lparr>user_query = ''theft'',
      retrieved_items = [[''section'' \<mapsto> PStr ''99'', ''text'' \<mapsto> PStr ''C'']],
      llm_context = ''[Section 99] C'', metadata = []\<rparr>
   = Inr (''[Section 99] C'',
          \<lparr>user_query = ''theft'',
           retrieved_items = [[''section'' \<mapsto> PStr ''99'', ''text'' \<mapsto> PStr ''C'']],
           llm_context = ''[Section 99] C'', metadata = []\<rparr>)"
proof -
  have run: "search_law ''theft'' (\<lambda>q. ()) (\<lambda>v k. ([] :: unit list, [0]))
     [[''section'' \<mapsto> PStr ''99'', ''text'' \<mapsto> PStr ''C'']] 6
     \<lparr>user_query = ''theft'', retrieved_items = [], llm_context = [], metadata = []\<rparr>
   = Inr (''[Section 99] C'',
          \<lparr>user_query = ''theft'',
           retrieved_items = [[''section'' \<mapsto> PStr ''99'', ''text'' \<mapsto> PStr ''C'']],
           llm_context = ''[Section 99] C'', metadata = []\<rparr>)"
    by (simp add: search_law_def py_getitem_def section_key_def
        dict_get_default_def dict_get_def chunk_def context_citation_def citation_parts_def
        subsection_shown_def)
  from search_law_deterministic[of "''theft''" "\<lambda>q. ()" "\<lambda>v k. ([] :: unit list, [0])"
      "[[''section'' \<mapsto> PStr ''99'', ''text'' \<mapsto> PStr ''C'']]" 6
      "\<lparr>user_query = ''theft'', retrieved_items = [], llm_context = [], metadata = []\<rparr>"
      "\<lparr>user_query = ''theft'', retrieved_items = [], llm_context = [], metadata = []\<rparr>"
      "''[Section 99] C''"
      "\<lparr>user_query = ''theft'',
           retrieved_items = [[''section'' \<mapsto> PStr ''99'', ''text'' \<mapsto> PStr ''C'']],
           llm_context = ''[Section 99] C'', metadata = []\<rparr>"] run
  show ?thesis by blast
qed

section \<open>Citations\<close>

lemma citation_parts_spec: "citation_parts it = spec_citation_parts it"
proof -
  have t: "truthy (dict_get it key) \<longleftrightarrow> \<not> field_absent (it key)" for key
    by (cases "it key"; cases "dict_get it key")
       (auto simp: dict_get_def field_absent_def)
  have f: "\<not> field_absent (it key) \<Longrightarrow> py_format (dict_get it key) = field_text (it key)" for key
    by (cases "it key"; cases "dict_get it key")
       (auto simp: dict_get_def field_absent_def field_text_def)
  have s: "subsection_shown it \<longleftrightarrow> \<not> subsection_absent (it ''subsection'')"
    by (cases "it ''subsection''"; cases "dict_get it ''subsection''")
       (auto simp: subsection_shown_def subsection_absent_def dict_get_def field_absent_def)
  have fs: "\<not> subsection_absent (it ''subsection'') \<Longrightarrow>
      py_format (dict_get it ''subsection'') = field_text (it ''subsection'')"
    using f[of "''subsection''"] by (simp add: subsection_absent_def)
  show ?thesis
    by (simp add: citation_parts_def spec_citation_parts_def t s f fs)
qed

lemma spec_citation_parts_nonempty:
  "spec_citation_parts it \<noteq> [] \<Longrightarrow> py_join '', '' (spec_citation_parts it) \<noteq> []"
  by (simp add: spec_citation_parts_def split: if_splits)

text \<open>
  C4: \<open>format_citation\<close> joins with a comma and a space the parts \<open>Chapter c\<close>,
  \<open>Section s\<close>, \<open>Sub-section u\<close> of the fields that are present; the record with
  chapter 5, section 41 and a null subsection gives \<open>Chapter 5, Section 41\<close>; when all
  three fields are absent the result is the marker \<open>Citation not available\<close>, and the
  result is never the empty string.
\<close>

theorem format_citation_join:
  "format_citation it =
     (if spec_citation_parts it = [] then ''Citation not available''
      else py_join '', '' (spec_citation_parts it)) \<and>
   format_citation [''chapter'' \<mapsto> PStr ''5'', ''section'' \<mapsto> PStr ''41'', ''subsection'' \<mapsto> PNone]
     = ''Chapter 5, Section 41'' \<and>
   (field_absent (it ''chapter'') \<and> field_absent (it ''section'') \<and>
    subsection_absent (it ''subsection'') \<longrightarrow> format_citation it = ''Citation not available'') \<and>
   format_citation it \<noteq> []"
proof (intro conjI impI)
  show join: "format_citation it =
     (if spec_citation_parts it = [] then ''Citation not available''
      else py_join '', '' (spec_citation_parts it))"
    by (simp add: format_citation_def citation_parts_spec)
  show "format_citation [''chapter'' \<mapsto> PStr ''5'', ''section'' \<mapsto> PStr ''41'', ''subsection'' \<mapsto> PNone]
     = ''Chapter 5, Section 41''"
    by (simp add: format_citation_def citation_parts_def subsection_shown_def dict_get_def)
  show "format_citation it \<noteq> []"
    using spec_citation_parts_nonempty[of it] by (simp add: join)
  assume "field_absent (it ''chapter'') \<and> field_absent (it ''section'') \<and>
    subsection_absent (it ''subsection'')"
  then have "spec_citation_parts it = []"
    by (simp add: spec_citation_parts_def)
  then show "format_citation it = ''Citation not available''"
    by (simp add: join)
qed

text \<open>A record with no field at all, and one whose subsection is the string \<open>"null"\<close>.\<close>

theorem format_citation_join_witness:
  "format_citation Map.empty = ''Citation not available'' \<and>
   format_citation [''chapter'' \<mapsto> PStr [], ''section'' \<mapsto> PNone, ''subsection'' \<mapsto> PStr ''null'']
     = ''Citation not available''"
proof -
  have a: "field_absent ((Map.empty :: item) ''chapter'') \<and>
           field_absent ((Map.empty :: item) ''section'') \<and>
           subsection_absent ((Map.empty :: item) ''subsection'')"
    by (simp add: field_absent_def subsection_absent_def)
  let ?r = "[''chapter'' \<mapsto> PStr [], ''section'' \<mapsto> PNone, ''subsection'' \<mapsto> PStr ''null'']"
  have b: "field_absent (?r ''chapter'') \<and> field_absent (?r ''section'') \<and>
           subsection_absent (?r ''subsection'')"
    by (simp add: field_absent_def subsection_absent_def)
  from format_citation_join[of Map.empty] a format_citation_join[of ?r] b
  show ?thesis by blast
qed

section \<open>Parsing the response\<close>

lemma find_sub_drop:
  "find_sub sep s = Some j \<Longrightarrow> n \<le> j \<Longrightarrow> find_sub sep (drop n s) = Some (j - n)"
proof (induction s arbitrary: n j)
  case Nil
  then show ?case by (simp split: if_splits)
next
  case (Cons c cs)
  show ?case
  proof (cases n)
    case 0
    with Cons.prems show ?thesis by simp
  next
    case (Suc m)
    with Cons.prems have np: "\<not> prefix sep (c # cs)"
      by (auto split: if_splits)
    with Cons.prems obtain j' where j': "find_sub sep cs = Some j'" "j = Suc j'"
      by auto
    with Cons.prems Suc have "m \<le> j'" by simp
    from Cons.IH[OF j'(1) this] Suc j'(2) show ?thesis by simp
  qed
qed

lemma split_ne_found:
  "sep \<noteq> [] \<Longrightarrow> find_sub sep s = Some i \<Longrightarrow>
   split_ne sep s = take i s # split_ne sep (drop (i + length sep) s)"
  by (subst split_ne.simps) simp

lemma split_ne_head: "sep \<noteq> [] \<Longrightarrow> \<exists>ps. split_ne sep s = before sep s # ps"
  by (subst split_ne.simps) (simp add: before_def split: option.splits)

lemma getitem_first: "py_getitem (x # xs) 0 = Inr x"
  by (simp add: py_getitem_def)

lemma getitem_second: "py_getitem (x # y # ys) 1 = Inr y"
  by (simp add: py_getitem_def)

lemma split_first_piece:
  "sep \<noteq> [] \<Longrightarrow> and_then (py_split sep s) (\<lambda>ps. and_then (py_getitem ps 0) f) = f (before sep s)"
proof -
  assume ne: "sep \<noteq> []"
  from split_ne_head[OF ne, of s] obtain ps where "split_ne sep s = before sep s # ps" by blast
  with ne show ?thesis by (simp add: py_split_def and_then_def getitem_first)
qed

lemma split_second_piece:
  assumes "sep \<noteq> []" and "find_sub sep s = Some i"
  shows "and_then (py_split sep s) (\<lambda>ps. and_then (py_getitem ps 1) f)
         = f (before sep (drop (i + length sep) s))"
proof -
  from split_ne_head[OF assms(1), of "drop (i + length sep) s"] obtain ps
    where "split_ne sep (drop (i + length sep) s) = before sep (drop (i + length sep) s) # ps"
    by blast
  with split_ne_found[OF assms] assms(1) show ?thesis
    by (simp add: py_split_def and_then_def getitem_second)
qed

lemma parse_answer_found:
  assumes "find_sub ''Answer:'' s = Some i" and "find_sub ''Source:'' s = Some j"
  shows "parse_answer s =
     Inr (Parsed (strip (before ''Source:'' (before ''Answer:'' (drop (i + 7) s))))
                 (strip (before ''Source:'' (drop (j + 7) s))))"
proof -
  have ne: "''Answer:'' \<noteq> []" "''Source:'' \<noteq> []"
    by simp_all
  have len: "length ''Answer:'' = 7" "length ''Source:'' = 7"
    by simp_all
  have a: "and_then (py_split ''Answer:'' s) (\<lambda>ps. and_then (py_getitem ps 1) f)
           = f (before ''Answer:'' (drop (i + 7) s))" for f :: "string \<Rightarrow> error + parsed"
    using split_second_piece[OF ne(1) assms(1), of f] by (simp only: len)
  have b: "and_then (py_split ''Source:'' t) (\<lambda>ps. and_then (py_getitem ps 0) f)
           = f (before ''Source:'' t)" for f :: "string \<Rightarrow> error + parsed" and t
    using split_first_piece[OF ne(2), of t f] .
  have c: "and_then (py_split ''Source:'' s) (\<lambda>ps. and_then (py_getitem ps 1) f)
           = f (before ''Source:'' (drop (j + 7) s))" for f :: "string \<Rightarrow> error + string"
    using split_second_piece[OF ne(2) assms(2), of f] by (simp only: len)
  show ?thesis
    unfolding parse_answer_def
    by (simp only: a b c) (simp add: py_in_def assms and_then_def)
qed

lemma parse_answer_total: "\<exists>p. parse_answer s = Inr p"
proof (cases "py_in ''Answer:'' s \<and> py_in ''Source:'' s")
  case True
  then obtain i j where "find_sub ''Answer:'' s = Some i" "find_sub ''Source:'' s = Some j"
    by (auto simp: py_in_def)
  from parse_answer_found[OF this] show ?thesis by blast
next
  case False
  then show ?thesis by (auto simp: parse_answer_def)
qed

text \<open>
  Against C2 as worded: with \<open>Answer:\<close> twice, \<open>split("Answer:")[1]\<close> ends at the second
  \<open>Answer:\<close>, so the answer text is \<open>a\<close> and not the text \<open>a Answer: b\<close> that lies
  between the first \<open>Answer:\<close> and the first \<open>Source:\<close>; with \<open>Source:\<close> twice,
  \<open>split("Source:")[1]\<close> ends at the second \<open>Source:\<close>, so the source text is \<open>b\<close> and
  not everything after the first \<open>Source:\<close>.
\<close>

theorem parse_answer_duplicate_marker:
  "py_in ''Answer:'' ''Answer: a Answer: b Source: c'' \<and>
   py_in ''Source:'' ''Answer: a Answer: b Source: c'' \<and>
   parse_answer ''Answer: a Answer: b Source: c'' = Inr (Parsed ''a'' ''c'') \<and>
   spec_answer_text ''Answer: a Answer: b Source: c'' = ''a Answer: b'' \<and>
   parse_answer ''Answer: a Source: b Source: c'' = Inr (Parsed ''a'' ''b'') \<and>
   spec_source_text ''Answer: a Source: b Source: c'' = ''b Source: c''"
  by (simp add: parse_answer_def py_in_def py_split_def split_ne.simps and_then_def
      py_getitem_def strip_def is_space_def spec_answer_text_def spec_source_text_def)

text \<open>
  C2, amended: parsing never raises, whether the markers are absent, duplicated or out
  of order. When both markers occur, the answer text is the trimmed text after the first
  \<open>Answer:\<close> up to the next \<open>Answer:\<close> and, within that, up to the first \<open>Source:\<close>; the
  source text is the trimmed text after the first \<open>Source:\<close> up to the next \<open>Source:\<close>.
  When the first \<open>Source:\<close> comes after the first \<open>Answer:\<close>, no further \<open>Answer:\<close>
  follows the first and no further \<open>Source:\<close> follows the first, these are the text
  between the two markers and everything after \<open>Source:\<close>, both trimmed. When a
  marker is missing the response is kept whole.
\<close>

theorem parse_answer_markers:
  "(\<exists>p. parse_answer s = Inr p) \<and>
   (find_sub ''Answer:'' s = Some i \<and> find_sub ''Source:'' s = Some j \<longrightarrow>
      parse_answer s =
        Inr (Parsed (strip (before ''Source:'' (before ''Answer:'' (drop (i + 7) s))))
                    (strip (before ''Source:'' (drop (j + 7) s))))) \<and>
   (find_sub ''Answer:'' s = Some i \<and> find_sub ''Source:'' s = Some j \<and> i + 7 \<le> j \<and>
    \<not> py_in ''Answer:'' (drop (i + 7) s) \<and> \<not> py_in ''Source:'' (drop (j + 7) s) \<longrightarrow>
      parse_answer s = Inr (Parsed (spec_answer_text s) (spec_source_text s))) \<and>
   (\<not> (py_in ''Answer:'' s \<and> py_in ''Source:'' s) \<longrightarrow> parse_answer s = Inr (Unparsed s))"
proof (intro conjI impI)
  show "\<exists>p. parse_answer s = Inr p"
    by (rule parse_answer_total)
next
  assume "find_sub ''Answer:'' s = Some i \<and> find_sub ''Source:'' s = Some j"
  then show "parse_answer s =
        Inr (Parsed (strip (before ''Source:'' (before ''Answer:'' (drop (i + 7) s))))
                    (strip (before ''Source:'' (drop (j + 7) s))))"
    by (simp add: parse_answer_found)
next
  assume a: "find_sub ''Answer:'' s = Some i \<and> find_sub ''Source:'' s = Some j \<and> i + 7 \<le> j \<and>
    \<not> py_in ''Answer:'' (drop (i + 7) s) \<and> \<not> py_in ''Source:'' (drop (j + 7) s)"
  then have fa: "find_sub ''Answer:'' s = Some i" and fs: "find_sub ''Source:'' s = Some j"
    and ord: "i + 7 \<le> j"
    and na: "find_sub ''Answer:'' (drop (i + 7) s) = None"
    and ns: "find_sub ''Source:'' (drop (j + 7) s) = None"
    by (simp_all add: py_in_def)
  from find_sub_drop[OF fs ord]
  have mid: "find_sub ''Source:'' (drop (i + 7) s) = Some (j - (i + 7))" .
  have "before ''Source:'' (before ''Answer:'' (drop (i + 7) s))
        = take (j - (i + 7)) (drop (i + 7) s)"
    by (simp add: before_def na mid)
  moreover have "before ''Source:'' (drop (j + 7) s) = drop (j + 7) s"
    by (simp add: before_def ns)
  ultimately show "parse_answer s = Inr (Parsed (spec_answer_text s) (spec_source_text s))"
    by (simp add: parse_answer_found[OF fa fs] spec_answer_text_def spec_source_text_def fa fs)
next
  assume "\<not> (py_in ''Answer:'' s \<and> py_in ''Source:'' s)"
  then show "parse_answer s = Inr (Unparsed s)"
    by (auto simp: parse_answer_def)
qed

text \<open>
  A response in the format the prompt asks for, markers out of order, and a response
  without markers.
\<close>

theorem parse_answer_markers_witness:
  "parse_answer ''Answer: yes Source: S41 '' = Inr (Parsed ''yes'' ''S41'') \<and>
   parse_answer ''Source: x Answer: y'' = Inr (Parsed ''y'' ''x Answer: y'') \<and>
   parse_answer ''No markers here'' = Inr (Unparsed ''No markers here'')"
proof -
  let ?s = "''Answer: yes Source: S41 ''"
  have h: "find_sub ''Answer:'' ?s = Some 0 \<and> find_sub ''Source:'' ?s = Some 12 \<and>
           0 + 7 \<le> (12 :: nat) \<and>
           \<not> py_in ''Answer:'' (drop (0 + 7) ?s) \<and> \<not> py_in ''Source:'' (drop (12 + 7) ?s)"
    by (simp add: py_in_def)
  from parse_answer_markers[of ?s 0 12] h
  have "parse_answer ?s = Inr (Parsed (spec_answer_text ?s) (spec_source_text ?s))"
    by blast
  then have a: "parse_answer ?s = Inr (Parsed ''yes'' ''S41'')"
    by (simp add: spec_answer_text_def spec_source_text_def strip_def is_space_def)
  let ?t = "''Source: x Answer: y''"
  have ht: "find_sub ''Answer:'' ?t = Some 10 \<and> find_sub ''Source:'' ?t = Some 0"
    by simp
  from parse_answer_markers[of ?t 10 0] ht
  have "parse_answer ?t =
        Inr (Parsed (strip (before ''Source:'' (before ''Answer:'' (drop (10 + 7) ?t))))
                    (strip (before ''Source:'' (drop (0 + 7) ?t))))"
    by blast
  then have b: "parse_answer ?t = Inr (Parsed ''y'' ''x Answer: y'')"
    by (simp add: before_def strip_def is_space_def)
  let ?u = "''No markers here''"
  have hu: "\<not> (py_in ''Answer:'' ?u \<and> py_in ''Source:'' ?u)"
    by (simp add: py_in_def)
  from parse_answer_markers[of ?u 0 0] hu
  have c: "parse_answer ?u = Inr (Unparsed ?u)"
    by blast
  from a b c show ?thesis by simp
qed

section \<open>The guard on neighbour indices\<close>

lemma first_wins_first_of_key:
  "section_key x \<notin> seen \<Longrightarrow> section_key x \<notin> section_key ` set pre \<Longrightarrow>
   x \<in> set (first_wins seen (pre @ x # post))"
  by (induction pre arbitrary: seen) auto

lemma neighbours_padding:
  assumes "meta \<noteq> []"
  shows "neighbours meta (pre @ (- 1) # post)
         = neighbours meta pre @ last meta # neighbours meta post"
proof -
  from assms have len: "0 < length meta" by simp
  then have "nat (int (length meta) + - 1) = length meta - 1" by simp
  with assms have "resolve meta (- 1) = last meta"
    by (simp add: resolve_def last_conv_nth)
  with len show ?thesis by (simp add: neighbours_def)
qed

text \<open>
  Against C10 as worded: a negative index does not always resolve to a record. On an
  empty corpus the padding index \<open>-1\<close> passes the guard of line 62 and \<open>metadata[-1]\<close>
  raises \<open>IndexError\<close>.
\<close>

theorem negative_index_empty_corpus:
  "retrieval_result
     (search_law ''theft'' (\<lambda>q. ()) (\<lambda>v k. ([] :: unit list, [- 1, - 1, - 1, - 1, - 1, - 1]))
        [] 6
        \<lparr>user_query = [], retrieved_items = [], llm_context = [], metadata = []\<rparr>)
   = Inl IndexError"
  by (simp add: retrieval_result_def search_law_def py_getitem_def)

text \<open>
  C10, amended: at every step of the walk, whatever the rest of the row and whatever
  was retained before, a neighbour index is skipped exactly when it is at least the
  number of metadata records. Every negative index passes the guard; when it is at least
  \<open>-len(metadata)\<close> it resolves, by negative indexing, to the record counted from the
  end, which is then treated like any hit (retained unless its key was seen); below
  \<open>-len(metadata)\<close> the lookup raises \<open>IndexError\<close>. So the last record of the corpus can
  appear as a hit that no neighbour matched: it does whenever the row holds the
  padding index \<open>-1\<close>, the corpus is not empty, the walk does not raise and no
  neighbour before that \<open>-1\<close> has the dedup key of the last record.
\<close>

theorem negative_index_guard:
  "(int (length meta) \<le> idx \<longrightarrow>
      dedup_loop meta (idx # rest) (retrieved, seen) = dedup_loop meta rest (retrieved, seen)) \<and>
   (0 \<le> idx \<and> idx < int (length meta) \<longrightarrow>
      dedup_loop meta (idx # rest) (retrieved, seen)
        = (if section_key (meta ! nat idx) \<in> seen then dedup_loop meta rest (retrieved, seen)
           else dedup_loop meta rest
                  (retrieved @ [meta ! nat idx], insert (section_key (meta ! nat idx)) seen))) \<and>
   (idx < 0 \<and> - int (length meta) \<le> idx \<longrightarrow>
      dedup_loop meta (idx # rest) (retrieved, seen)
        = (if section_key (meta ! nat (int (length meta) + idx)) \<in> seen
           then dedup_loop meta rest (retrieved, seen)
           else dedup_loop meta rest
                  (retrieved @ [meta ! nat (int (length meta) + idx)],
                   insert (section_key (meta ! nat (int (length meta) + idx))) seen))) \<and>
   (idx < - int (length meta) \<longrightarrow>
      dedup_loop meta (idx # rest) (retrieved, seen) = Inl IndexError) \<and>
   (meta \<noteq> [] \<and> snd (index (sbert q) k) = pre @ (- 1) # post \<and>
    section_key (last meta) \<notin> section_key ` set (neighbours meta pre) \<and>
    retrieval_result (search_law q sbert index meta k st) = Inr (hits, ctx) \<longrightarrow>
      last meta \<in> set hits)"
proof (intro conjI impI)
  assume "int (length meta) \<le> idx"
  then show "dedup_loop meta (idx # rest) (retrieved, seen) = dedup_loop meta rest (retrieved, seen)"
    by simp
next
  assume "0 \<le> idx \<and> idx < int (length meta)"
  then show "dedup_loop meta (idx # rest) (retrieved, seen)
        = (if section_key (meta ! nat idx) \<in> seen then dedup_loop meta rest (retrieved, seen)
           else dedup_loop meta rest
                  (retrieved @ [meta ! nat idx], insert (section_key (meta ! nat idx)) seen))"
    by (simp add: py_getitem_def)
next
  assume "idx < 0 \<and> - int (length meta) \<le> idx"
  then show "dedup_loop meta (idx # rest) (retrieved, seen)
        = (if section_key (meta ! nat (int (length meta) + idx)) \<in> seen
           then dedup_loop meta rest (retrieved, seen)
           else dedup_loop meta rest
                  (retrieved @ [meta ! nat (int (length meta) + idx)],
                   insert (section_key (meta ! nat (int (length meta) + idx))) seen))"
    by (simp add: py_getitem_def)
next
  assume "idx < - int (length meta)"
  then show "dedup_loop meta (idx # rest) (retrieved, seen) = Inl IndexError"
    by (simp add: py_getitem_def)
next
  assume a: "meta \<noteq> [] \<and> snd (index (sbert q) k) = pre @ (- 1) # post \<and>
    section_key (last meta) \<notin> section_key ` set (neighbours meta pre) \<and>
    retrieval_result (search_law q sbert index meta k st) = Inr (hits, ctx)"
  then have "hits = first_wins {} (neighbours meta (pre @ (- 1) # post))"
    using search_law_hits[of q sbert index meta k st hits ctx] by simp
  with a have "hits = first_wins {} (neighbours meta pre @ last meta # neighbours meta post)"
    by (simp add: neighbours_padding)
  with a show "last meta \<in> set hits"
    by (simp add: first_wins_first_of_key)
qed

text \<open>
  A corpus of three records of which the index holds the first two vectors, and
  \<open>k = 6\<close>: the row is the two neighbours and four times the padding index \<open>-1\<close>. The
  third hit is the last record, which no neighbour named. On the two-record corpus
  the index 2 is skipped, \<open>-2\<close> is the first record and \<open>-3\<close> raises.
\<close>

theorem negative_index_guard_witness:
  "retrieval_result
     (search_law ''theft'' (\<lambda>q. ()) (\<lambda>v k. ([] :: unit list, [1, 0, - 1, - 1, - 1, - 1]))
        [[''section'' \<mapsto> PStr ''41'', ''text'' \<mapsto> PStr ''A''],
         [''section'' \<mapsto> PStr ''42'', ''text'' \<mapsto> PStr ''B''],
         [''section'' \<mapsto> PStr ''99'', ''text'' \<mapsto> PStr ''C'']] 6
        \<lparr>user_query = [], retrieved_items = [], llm_context = [], metadata = []\<rparr>)
   = Inr ([[''section'' \<mapsto> PStr ''42'', ''text'' \<mapsto> PStr ''B''],
           [''section'' \<mapsto> PStr ''41'', ''text'' \<mapsto> PStr ''A''],
           [''section'' \<mapsto> PStr ''99'', ''text'' \<mapsto> PStr ''C'']],
          ''[Section 42] B'' @ [CHR 0x0A, CHR 0x0A] @ ''[Section 41] A'' @
          [CHR 0x0A, CHR 0x0A] @ ''[Section 99] C'')
   \<and> [''section'' \<mapsto> PStr ''99'', ''text'' \<mapsto> PStr ''C'']
       \<in> set [[''section'' \<mapsto> PStr ''42'', ''text'' \<mapsto> PStr ''B''],
               [''section'' \<mapsto> PStr ''41'', ''text'' \<mapsto> PStr ''A''],
               [''section'' \<mapsto> PStr ''99'', ''text'' \<mapsto> PStr ''C'']]
   \<and> dedup_loop [[''section'' \<mapsto> PStr ''41''], [''section'' \<mapsto> PStr ''99'']] [2, 0] ([], {})
     = Inr ([[''section'' \<mapsto> PStr ''41'']], {''41-''})
   \<and> dedup_loop [[''section'' \<mapsto> PStr ''41''], [''section'' \<mapsto> PStr ''99'']] [0, - 2, - 1]
       ([], {})
     = Inr ([[''section'' \<mapsto> PStr ''41''], [''section'' \<mapsto> PStr ''99'']], {''99-'', ''41-''})
   \<and> dedup_loop [[''section'' \<mapsto> PStr ''41''], [''section'' \<mapsto> PStr ''99'']] [0, - 3, 1]
       ([], {})
     = Inl IndexError"
proof -
  let ?m = "[[''section'' \<mapsto> PStr ''41'', ''text'' \<mapsto> PStr ''A''],
             [''section'' \<mapsto> PStr ''42'', ''text'' \<mapsto> PStr ''B''],
             [''section'' \<mapsto> PStr ''99'', ''text'' \<mapsto> PStr ''C'']]"
  let ?hits = "[[''section'' \<mapsto> PStr ''42'', ''text'' \<mapsto> PStr ''B''],
           [''section'' \<mapsto> PStr ''41'', ''text'' \<mapsto> PStr ''A''],
           [''section'' \<mapsto> PStr ''99'', ''text'' \<mapsto> PStr ''C'']]"
  let ?ctx = "''[Section 42] B'' @ [CHR 0x0A, CHR 0x0A] @ ''[Section 41] A'' @
          [CHR 0x0A, CHR 0x0A] @ ''[Section 99] C''"
  let ?n = "[[''section'' \<mapsto> PStr ''41''], [''section'' \<mapsto> PStr ''99'']]"
  let ?st = "\<lparr>user_query = [], retrieved_items = [], llm_context = [], metadata = []\<rparr>"
  let ?index = "\<lambda>v k. ([] :: unit list, [1, 0, - 1, - 1, - 1, - 1 :: int])"
  have run: "retrieval_result (search_law ''theft'' (\<lambda>q. ()) ?index ?m 6 ?st)
             = Inr (?hits, ?ctx)"
    by (simp add: retrieval_result_def search_law_def py_getitem_def section_key_def
        dict_get_default_def dict_get_def chunk_def context_citation_def citation_parts_def
        subsection_shown_def)
  have last_hit: "last ?m \<in> set ?hits"
  proof -
    have h: "?m \<noteq> [] \<and> snd (?index ((\<lambda>q. ()) ''theft'') (6 :: nat)) = [1, 0] @ (- 1) # [- 1, - 1, - 1] \<and>
             section_key (last ?m) \<notin> section_key ` set (neighbours ?m [1, 0])"
      by (simp add: neighbours_def resolve_def section_key_def dict_get_default_def)
    from negative_index_guard[of ?m 0 "[]" "[]" "{}" ?index "\<lambda>q. ()" "''theft''" 6
        "[1, 0]" "[- 1, - 1, - 1]" ?st ?hits ?ctx] h run
    show ?thesis by blast
  qed
  have skip: "dedup_loop ?n [2, 0] ([], {}) = dedup_loop ?n [0] ([], {})"
  proof -
    have h: "int (length ?n) \<le> 2" by simp
    from negative_index_guard[of ?n 2 "[0]" "[]" "{}"] h show ?thesis by blast
  qed
  have pos: "dedup_loop ?n [0] ([], {})
     = (if section_key (?n ! nat 0) \<in> {} then dedup_loop ?n [] ([], {})
        else dedup_loop ?n [] ([] @ [?n ! nat 0], insert (section_key (?n ! nat 0)) {}))"
  proof -
    have h: "(0 :: int) \<le> 0 \<and> 0 < int (length ?n)" by simp
    from negative_index_guard[of ?n 0 "[]" "[]" "{}"] h show ?thesis by blast
  qed
  have neg2: "dedup_loop ?n [- 2, - 1] ([?n ! 0], {''41-''})
     = (if section_key (?n ! nat (int (length ?n) + - 2)) \<in> {''41-''}
        then dedup_loop ?n [- 1] ([?n ! 0], {''41-''})
        else dedup_loop ?n [- 1]
               ([?n ! 0] @ [?n ! nat (int (length ?n) + - 2)],
                insert (section_key (?n ! nat (int (length ?n) + - 2))) {''41-''}))"
  proof -
    have h: "(- 2 :: int) < 0 \<and> - int (length ?n) \<le> - 2" by simp
    from negative_index_guard[of ?n "- 2" "[- 1]" "[?n ! 0]" "{''41-''}"] h show ?thesis by blast
  qed
  have neg1: "dedup_loop ?n [- 1] ([?n ! 0], {''41-''})
     = (if section_key (?n ! nat (int (length ?n) + - 1)) \<in> {''41-''}
        then dedup_loop ?n [] ([?n ! 0], {''41-''})
        else dedup_loop ?n []
               ([?n ! 0] @ [?n ! nat (int (length ?n) + - 1)],
                insert (section_key (?n ! nat (int (length ?n) + - 1))) {''41-''}))"
  proof -
    have h: "(- 1 :: int) < 0 \<and> - int (length ?n) \<le> - 1" by simp
    from negative_index_guard[of ?n "- 1" "[]" "[?n ! 0]" "{''41-''}"] h show ?thesis by blast
  qed
  have err: "dedup_loop ?n [- 3, 1] ([?n ! 0], {''41-''}) = Inl IndexError"
  proof -
    have h: "- 3 < - int (length ?n)" by simp
    from negative_index_guard[of ?n "- 3" "[1]" "[?n ! 0]" "{''41-''}"] h show ?thesis by blast
  qed
  have key: "section_key [''section'' \<mapsto> PStr ''41''] = ''41-''"
    "section_key [''section'' \<mapsto> PStr ''99''] = ''99-''"
    by (simp_all add: section_key_def dict_get_default_def)
  have a: "dedup_loop ?n [2, 0] ([], {}) = Inr ([[''section'' \<mapsto> PStr ''41'']], {''41-''})"
    using skip pos by (simp add: key)
  have first: "dedup_loop ?n [0, - 2, - 1] ([], {}) = dedup_loop ?n [- 2, - 1] ([?n ! 0], {''41-''})"
    by (simp add: py_getitem_def key)
  have b: "dedup_loop ?n [0, - 2, - 1] ([], {})
     = Inr ([[''section'' \<mapsto> PStr ''41''], [''section'' \<mapsto> PStr ''99'']], {''99-'', ''41-''})"
    unfolding first using neg2 neg1 by (simp add: key)
  have first': "dedup_loop ?n [0, - 3, 1] ([], {}) = dedup_loop ?n [- 3, 1] ([?n ! 0], {''41-''})"
    by (simp add: py_getitem_def key)
  have c: "dedup_loop ?n [0, - 3, 1] ([], {}) = Inl IndexError"
    unfolding first' using err .
  from run last_hit a b c show ?thesis by simp
qed

section \<open>Loading the corpus\<close>

lemma main_load_ok:
  "np_load = Inr emb \<Longrightarrow> json_load = Inr meta \<Longrightarrow> shape_dim emb = Inr dim \<Longrightarrow>
   new_index dim = Inr ix \<Longrightarrow> index_add ix emb = Inr ix' \<Longrightarrow>
   main_load np_load json_load shape_dim new_index index_add = ([], Some (emb, meta, ix'))"
  by (simp add: main_load_def load_embeddings_def and_then_def)

lemma main_load_raises:
  "and_then np_load (\<lambda>emb.
     and_then json_load (\<lambda>meta.
     and_then (shape_dim emb) (\<lambda>dim.
     and_then (new_index dim) (\<lambda>index.
     and_then (index_add index emb) (\<lambda>index. Inr (emb, meta, index)))))) = Inl e \<Longrightarrow>
   main_load np_load json_load shape_dim new_index index_add
     = ([Error_loading_data e, Failed_to_load_legal_database], None)"
  by (simp add: main_load_def load_embeddings_def)

text \<open>
  Against C7 as worded: nothing compares the number of vectors with the number of
  records, and nothing looks at what the metadata file decoded to. Three vectors of
  dimension two (on which \<open>emb.shape[1]\<close> is 2 and the index takes all three) load
  together with a metadata file of two records, and also with a metadata file that holds
  \<open>null\<close>: no error is shown and the run goes on.
\<close>

theorem count_mismatch_loads:
  "main_load (Inr [[1, 0], [0, 1], [1, 1 :: int]] :: error + int list list)
     (Inr (JArr [JObj [(''section'', JStr ''41'')], JObj [(''section'', JStr ''99'')]]))
     (\<lambda>emb. Inr (length (hd emb))) (\<lambda>dim. Inr (dim, 0 :: nat))
     (\<lambda>ix emb. Inr (fst ix, snd ix + length emb))
   = ([], Some ([[1, 0], [0, 1], [1, 1]],
                JArr [JObj [(''section'', JStr ''41'')], JObj [(''section'', JStr ''99'')]],
                (2, 3))) \<and>
   length [[1, 0], [0, 1], [1, 1 :: int]]
     \<noteq> length [JObj [(''section'', JStr ''41'')], JObj [(''section'', JStr ''99'')]] \<and>
   main_load (Inr [[1, 0], [0, 1], [1, 1 :: int]] :: error + int list list)
     (Inr JNull)
     (\<lambda>emb. Inr (length (hd emb))) (\<lambda>dim. Inr (dim, 0 :: nat))
     (\<lambda>ix emb. Inr (fst ix, snd ix + length emb))
   = ([], Some ([[1, 0], [0, 1], [1, 1]], JNull, (2, 3)))"
  by (simp add: main_load_def load_embeddings_def and_then_def)

text \<open>
  C7, amended: loading fails fast with a reported load error, and the run stops before
  any query is served, whenever a step of loading raises: reading the embeddings file,
  reading and decoding the metadata file, taking the dimension of the array, creating
  the index, or adding the array to it (a file that is missing, or malformed so that
  the libraries reject it). The run never stops without that report. What is not
  detected is a metadata file that decodes to something else than the list of records,
  and a disagreement of the two element counts: when no step raises, the corpus is
  loaded as it is and the run goes on.
\<close>

theorem load_fails_fast:
  "(np_load = Inl e \<longrightarrow>
      main_load np_load json_load shape_dim new_index index_add
        = ([Error_loading_data e, Failed_to_load_legal_database], None)) \<and>
   (np_load = Inr emb \<and> json_load = Inl e \<longrightarrow>
      main_load np_load json_load shape_dim new_index index_add
        = ([Error_loading_data e, Failed_to_load_legal_database], None)) \<and>
   (np_load = Inr emb \<and> json_load = Inr meta \<and> shape_dim emb = Inl e \<longrightarrow>
      main_load np_load json_load shape_dim new_index index_add
        = ([Error_loading_data e, Failed_to_load_legal_database], None)) \<and>
   (np_load = Inr emb \<and> json_load = Inr meta \<and> shape_dim emb = Inr dim \<and>
    new_index dim = Inl e \<longrightarrow>
      main_load np_load json_load shape_dim new_index index_add
        = ([Error_loading_data e, Failed_to_load_legal_database], None)) \<and>
   (np_load = Inr emb \<and> json_load = Inr meta \<and> shape_dim emb = Inr dim \<and>
    new_index dim = Inr ix \<and> index_add ix emb = Inl e \<longrightarrow>
      main_load np_load json_load shape_dim new_index index_add
        = ([Error_loading_data e, Failed_to_load_legal_database], None)) \<and>
   (np_load = Inr emb \<and> json_load = Inr meta \<and> shape_dim emb = Inr dim \<and>
    new_index dim = Inr ix \<and> index_add ix emb = Inr ix' \<longrightarrow>
      main_load np_load json_load shape_dim new_index index_add
        = ([], Some (emb, meta, ix'))) \<and>
   (snd (main_load np_load json_load shape_dim new_index index_add) = None \<longrightarrow>
      (\<exists>x. fst (main_load np_load json_load shape_dim new_index index_add)
        = [Error_loading_data x, Failed_to_load_legal_database]))"
proof (intro conjI impI)
  assume "np_load = Inl e"
  then show "main_load np_load json_load shape_dim new_index index_add
        = ([Error_loading_data e, Failed_to_load_legal_database], None)"
    by (intro main_load_raises) (simp add: and_then_def)
next
  assume "np_load = Inr emb \<and> json_load = Inl e"
  then show "main_load np_load json_load shape_dim new_index index_add
        = ([Error_loading_data e, Failed_to_load_legal_database], None)"
    by (intro main_load_raises) (simp add: and_then_def)
next
  assume "np_load = Inr emb \<and> json_load = Inr meta \<and> shape_dim emb = Inl e"
  then show "main_load np_load json_load shape_dim new_index index_add
        = ([Error_loading_data e, Failed_to_load_legal_database], None)"
    by (intro main_load_raises) (simp add: and_then_def)
next
  assume "np_load = Inr emb \<and> json_load = Inr meta \<and> shape_dim emb = Inr dim \<and>
    new_index dim = Inl e"
  then show "main_load np_load json_load shape_dim new_index index_add
        = ([Error_loading_data e, Failed_to_load_legal_database], None)"
    by (intro main_load_raises) (simp add: and_then_def)
next
  assume "np_load = Inr emb \<and> json_load = Inr meta \<and> shape_dim emb = Inr dim \<and>
    new_index dim = Inr ix \<and> index_add ix emb = Inl e"
  then show "main_load np_load json_load shape_dim new_index index_add
        = ([Error_loading_data e, Failed_to_load_legal_database], None)"
    by (intro main_load_raises) (simp add: and_then_def)
next
  assume "np_load = Inr emb \<and> json_load = Inr meta \<and> shape_dim emb = Inr dim \<and>
    new_index dim = Inr ix \<and> index_add ix emb = Inr ix'"
  then show "main_load np_load json_load shape_dim new_index index_add
        = ([], Some (emb, meta, ix'))"
    by (simp add: main_load_ok)
next
  assume "snd (main_load np_load json_load shape_dim new_index index_add) = None"
  then show "\<exists>x. fst (main_load np_load json_load shape_dim new_index index_add)
        = [Error_loading_data x, Failed_to_load_legal_database]"
    by (auto simp: main_load_def load_embeddings_def split: sum.splits prod.splits option.splits)
qed

text \<open>
  Two vectors and two records: a missing embeddings file, a metadata file that does not
  decode, an array without a second axis, an index that cannot be created, an array the
  index rejects, and a load in which no step raises.
\<close>

theorem load_fails_fast_witness:
  "main_load (Inl FileNotFoundError :: error + int list list)
     (Inr (JArr [JObj [(''section'', JStr ''41'')], JObj [(''section'', JStr ''99'')]]))
     (\<lambda>emb. Inr (length (hd emb))) (\<lambda>dim. Inr (dim, 0 :: nat))
     (\<lambda>ix emb. Inr (fst ix, snd ix + length emb))
   = ([Error_loading_data FileNotFoundError, Failed_to_load_legal_database], None) \<and>
   main_load (Inr [[1, 0], [0, 1 :: int]] :: error + int list list)
     (Inl DecodeError)
     (\<lambda>emb. Inr (length (hd emb))) (\<lambda>dim. Inr (dim, 0 :: nat))
     (\<lambda>ix emb. Inr (fst ix, snd ix + length emb))
   = ([Error_loading_data DecodeError, Failed_to_load_legal_database], None) \<and>
   main_load (Inr [[1, 0], [0, 1 :: int]] :: error + int list list)
     (Inr (JArr [JObj [(''section'', JStr ''41'')], JObj [(''section'', JStr ''99'')]]))
     (\<lambda>emb. Inl IndexError :: error + nat) (\<lambda>dim. Inr (dim, 0 :: nat))
     (\<lambda>ix emb. Inr (fst ix, snd ix + length emb))
   = ([Error_loading_data IndexError, Failed_to_load_legal_database], None) \<and>
   main_load (Inr [[1, 0], [0, 1 :: int]] :: error + int list list)
     (Inr (JArr [JObj [(''section'', JStr ''41'')], JObj [(''section'', JStr ''99'')]]))
     (\<lambda>emb. Inr (length (hd emb))) (\<lambda>dim. Inl AssertionError :: error + nat \<times> nat)
     (\<lambda>ix emb. Inr (fst ix, snd ix + length emb))
   = ([Error_loading_data AssertionError, Failed_to_load_legal_database], None) \<and>
   main_load (Inr [[1, 0], [0, 1 :: int]] :: error + int list list)
     (Inr (JArr [JObj [(''section'', JStr ''41'')], JObj [(''section'', JStr ''99'')]]))
     (\<lambda>emb. Inr (length (hd emb))) (\<lambda>dim. Inr (dim, 0 :: nat))
     (\<lambda>ix emb. Inl ValueError)
   = ([Error_loading_data ValueError, Failed_to_load_legal_database], None) \<and>
   main_load (Inr [[1, 0], [0, 1 :: int]] :: error + int list list)
     (Inr (JArr [JObj [(''section'', JStr ''41'')], JObj [(''section'', JStr ''99'')]]))
     (\<lambda>emb. Inr (length (hd emb))) (\<lambda>dim. Inr (dim, 0 :: nat))
     (\<lambda>ix emb. Inr (fst ix, snd ix + length emb))
   = ([], Some ([[1, 0], [0, 1]], JArr [JObj [(''section'', JStr ''41'')], JObj [(''section'', JStr ''99'')]], (2, 2)))"
proof -
  have a: "main_load (Inl FileNotFoundError :: error + int list list)
     (Inr (JArr [JObj [(''section'', JStr ''41'')], JObj [(''section'', JStr ''99'')]]))
     (\<lambda>emb. Inr (length (hd emb))) (\<lambda>dim. Inr (dim, 0 :: nat))
     (\<lambda>ix emb. Inr (fst ix, snd ix + length emb))
   = ([Error_loading_data FileNotFoundError, Failed_to_load_legal_database], None)"
    using load_fails_fast[where np_load = "Inl FileNotFoundError :: error + int list list" and
        json_load = "Inr (JArr [JObj [(''section'', JStr ''41'')], JObj [(''section'', JStr ''99'')]])" and
        shape_dim = "\<lambda>emb. Inr (length (hd emb))" and
        new_index = "\<lambda>dim. Inr (dim, 0 :: nat)" and
        index_add = "\<lambda>ix emb. Inr (fst ix, snd ix + length emb)"
        and e = FileNotFoundError]
    by simp
  have b: "main_load (Inr [[1, 0], [0, 1 :: int]] :: error + int list list)
     (Inl DecodeError)
     (\<lambda>emb. Inr (length (hd emb))) (\<lambda>dim. Inr (dim, 0 :: nat))
     (\<lambda>ix emb. Inr (fst ix, snd ix + length emb))
   = ([Error_loading_data DecodeError, Failed_to_load_legal_database], None)"
    using load_fails_fast[where np_load = "Inr [[1, 0], [0, 1 :: int]] :: error + int list list" and
        json_load = "Inl DecodeError" and
        shape_dim = "\<lambda>emb. Inr (length (hd emb))" and
        new_index = "\<lambda>dim. Inr (dim, 0 :: nat)" and
        index_add = "\<lambda>ix emb. Inr (fst ix, snd ix + length emb)"
        and emb = "[[1, 0], [0, 1 :: int]]" and e = DecodeError]
    by simp
  have c: "main_load (Inr [[1, 0], [0, 1 :: int]] :: error + int list list)
     (Inr (JArr [JObj [(''section'', JStr ''41'')], JObj [(''section'', JStr ''99'')]]))
     (\<lambda>emb. Inl IndexError :: error + nat) (\<lambda>dim. Inr (dim, 0 :: nat))
     (\<lambda>ix emb. Inr (fst ix, snd ix + length emb))
   = ([Error_loading_data IndexError, Failed_to_load_legal_database], None)"
    using load_fails_fast[where np_load = "Inr [[1, 0], [0, 1 :: int]] :: error + int list list" and
        json_load = "Inr (JArr [JObj [(''section'', JStr ''41'')], JObj [(''section'', JStr ''99'')]])" and
        shape_dim = "\<lambda>emb. Inl IndexError :: error + nat" and
        new_index = "\<lambda>dim. Inr (dim, 0 :: nat)" and
        index_add = "\<lambda>ix emb. Inr (fst ix, snd ix + length emb)"
        and emb = "[[1, 0], [0, 1 :: int]]" and
        meta = "(JArr [JObj [(''section'', JStr ''41'')], JObj [(''section'', JStr ''99'')]])" and
        e = IndexError]
    by simp
  have d: "main_load (Inr [[1, 0], [0, 1 :: int]] :: error + int list list)
     (Inr (JArr [JObj [(''section'', JStr ''41'')], JObj [(''section'', JStr ''99'')]]))
     (\<lambda>emb. Inr (length (hd emb))) (\<lambda>dim. Inl AssertionError :: error + nat \<times> nat)
     (\<lambda>ix emb. Inr (fst ix, snd ix + length emb))
   = ([Error_loading_data AssertionError, Failed_to_load_legal_database], None)"
    using load_fails_fast[where np_load = "Inr [[1, 0], [0, 1 :: int]] :: error + int list list" and
        json_load = "Inr (JArr [JObj [(''section'', JStr ''41'')], JObj [(''section'', JStr ''99'')]])" and
        shape_dim = "\<lambda>emb. Inr (length (hd emb))" and
        new_index = "\<lambda>dim. Inl AssertionError :: error + nat \<times> nat" and
        index_add = "\<lambda>ix emb. Inr (fst ix, snd ix + length emb)"
        and emb = "[[1, 0], [0, 1 :: int]]" and
        meta = "(JArr [JObj [(''section'', JStr ''41'')], JObj [(''section'', JStr ''99'')]])" and
        dim = 2 and e = AssertionError]
    by simp
  have f: "main_load (Inr [[1, 0], [0, 1 :: int]] :: error + int list list)
     (Inr (JArr [JObj [(''section'', JStr ''41'')], JObj [(''section'', JStr ''99'')]]))
     (\<lambda>emb. Inr (length (hd emb))) (\<lambda>dim. Inr (dim, 0 :: nat))
     (\<lambda>ix emb. Inl ValueError)
   = ([Error_loading_data ValueError, Failed_to_load_legal_database], None)"
    using load_fails_fast[where np_load = "Inr [[1, 0], [0, 1 :: int]] :: error + int list list" and
        json_load = "Inr (JArr [JObj [(''section'', JStr ''41'')], JObj [(''section'', JStr ''99'')]])" and
        shape_dim = "\<lambda>emb. Inr (length (hd emb))" and
        new_index = "\<lambda>dim. Inr (dim, 0 :: nat)" and
        index_add = "\<lambda>ix emb. Inl ValueError"
        and emb = "[[1, 0], [0, 1 :: int]]" and
        meta = "(JArr [JObj [(''section'', JStr ''41'')], JObj [(''section'', JStr ''99'')]])" and
        dim = 2 and ix = "(2, 0)" and
        e = ValueError]
    by simp
  have g: "main_load (Inr [[1, 0], [0, 1 :: int]] :: error + int list list)
     (Inr (JArr [JObj [(''section'', JStr ''41'')], JObj [(''section'', JStr ''99'')]]))
     (\<lambda>emb. Inr (length (hd emb))) (\<lambda>dim. Inr (dim, 0 :: nat))
     (\<lambda>ix emb. Inr (fst ix, snd ix + length emb))
   = ([], Some ([[1, 0], [0, 1]], JArr [JObj [(''section'', JStr ''41'')], JObj [(''section'', JStr ''99'')]], (2, 2)))"
    using load_fails_fast[where np_load = "Inr [[1, 0], [0, 1 :: int]] :: error + int list list" and
        json_load = "Inr (JArr [JObj [(''section'', JStr ''41'')], JObj [(''section'', JStr ''99'')]])" and
        shape_dim = "\<lambda>emb. Inr (length (hd emb))" and
        new_index = "\<lambda>dim. Inr (dim, 0 :: nat)" and
        index_add = "\<lambda>ix emb. Inr (fst ix, snd ix + length emb)"
        and emb = "[[1, 0], [0, 1 :: int]]" and
        meta = "(JArr [JObj [(''section'', JStr ''41'')], JObj [(''section'', JStr ''99'')]])" and
        dim = 2 and ix = "(2, 0)" and
        ix' = "(2, 2)"]
    by simp
  from a b c d f g show ?thesis by (intro conjI)
qed

end
